theory Spec2Isabelle
  imports Complex_Main "HOL-Library.Monad_Syntax" "HOL-Library.Sublist"
begin

section \<open>JavaScript values\<close>

text \<open>
  A JavaScript number is taken as an exact real number: every finite double is one, and the
  payloads arrive as JSON, which has no NaN and no infinity. The rounding error of
  double arithmetic is not part of the model.
\<close>

type_synonym number = real

text \<open>
  A \<open>Date\<close> object holds a time value in milliseconds since the epoch, or NaN
  (an Invalid Date). The constructor \<open>new Date(s)\<close> never throws: a string the
  runtime's \<open>Date.parse\<close> does not accept, and \<open>undefined\<close>, give an Invalid Date.
  \<open>Date.parse\<close> belongs to the runtime, so it is a parameter (\<open>parse\<close>).
\<close>

datatype Date = Instant int | Invalid_Date

type_synonym date_parser = "string \<Rightarrow> int option"

definition new_Date :: "date_parser \<Rightarrow> string option \<Rightarrow> Date" where
  "new_Date parse s =
     (case s of
        None \<Rightarrow> Invalid_Date
      | Some str \<Rightarrow> (case parse str of None \<Rightarrow> Invalid_Date | Some t \<Rightarrow> Instant t))"

text \<open>
  \<open>Number(x.toFixed(f))\<close>. \<open>toFixed\<close> takes the sign off, picks the integer \<open>n\<close> for
  which \<open>n / 10^f - x\<close> is closest to zero (the larger \<open>n\<close> on a tie), and prints it
  with \<open>f\<close> decimals; \<open>Number\<close> reads the decimal back. From \<open>10^21\<close> on
  \<open>toFixed\<close> prints the number itself; a double that large is an integer, on which the
  rounding below is the identity (\<open>toFixed_of_int\<close>), so that branch is not separate.
\<close>

definition toFixed_digits :: "number \<Rightarrow> nat \<Rightarrow> int" where
  "toFixed_digits x f = \<lfloor>x * 10 ^ f + 1 / 2\<rfloor>"

definition toFixed :: "number \<Rightarrow> nat \<Rightarrow> number" where
  "toFixed x f =
     (if x < 0 then - (of_int (toFixed_digits (- x) f) / 10 ^ f)
      else of_int (toFixed_digits x f) / 10 ^ f)"

text \<open>
  What the spec calls "rounded to \<open>f\<close> decimal places", in the spec's words and
  apart from \<open>toFixed\<close>: \<open>r\<close> has at most \<open>f\<close> decimals and lies within
  half a unit of the last decimal of \<open>x\<close>.
\<close>

definition rounded_to_decimals :: "nat \<Rightarrow> number \<Rightarrow> number \<Rightarrow> bool" where
  "rounded_to_decimals f x r \<longleftrightarrow>
     r * 10 ^ f = of_int \<lfloor>r * 10 ^ f\<rfloor> \<and> \<bar>r - x\<bar> \<le> 1 / (2 * 10 ^ f)"

section \<open>Errors\<close>

text \<open>
  \<open>BadRequestException\<close> and \<open>NotFoundException\<close> are the two exceptions the
  services throw, each with its message. \<open>QueryFailedError\<close> is the rejection of a
  statement by the database (a NOT NULL column left undefined, an Invalid Date in a
  \<open>timestamptz\<close> column); no handler catches it.
\<close>

datatype error =
    BadRequestException string
  | NotFoundException string
  | QueryFailedError

text \<open>
  The HTTP status the framework answers with: that of the exception for the two HTTP
  exceptions, 500 for any other error. A client error is a status below 500.
\<close>

fun http_status :: "error \<Rightarrow> nat" where
  "http_status (BadRequestException message) = 400"
| "http_status (NotFoundException message) = 404"
| "http_status QueryFailedError = 500"

definition client_error :: "error \<Rightarrow> bool" where
  "client_error e \<longleftrightarrow> http_status e < 500"

section \<open>Entities and the database\<close>

text \<open>
  \<open>CurrentVehicleStatus\<close> and \<open>CurrentMeterStatus\<close> are the entity classes of
  the source: a primary column, \<open>float\<close> columns and a \<open>timestamptz\<close> column,
  none nullable. A stored timestamp is an instant.
\<close>

record CurrentVehicleStatus =
  cv_vehicleId :: string
  cv_soc :: number
  cv_lastKwhDeliveredDc :: number
  cv_batteryTemp :: number
  cv_lastUpdatedAt :: int

record CurrentMeterStatus =
  cm_meterId :: string
  cm_lastKwhConsumedAc :: number
  cm_voltage :: number
  cm_lastUpdatedAt :: int

text \<open>
  Modelled from the spec: the entity classes \<open>VehicleTelemetryHistory\<close>,
  \<open>MeterTelemetryHistory\<close> and \<open>VehicleMeterMapping\<close> are imported by the
  services but their files are not among the sources. Their columns are those of the
  spec's data model (section 3) and of the rows the services insert; all are NOT NULL.
  The surrogate id of a history row is its position in the relation.
\<close>

record VehicleTelemetryHistory =
  vh_vehicleId :: string
  vh_soc :: number
  vh_kwhDeliveredDc :: number
  vh_batteryTemp :: number
  vh_timestamp :: int

record MeterTelemetryHistory =
  mh_meterId :: string
  mh_kwhConsumedAc :: number
  mh_voltage :: number
  mh_timestamp :: int

record VehicleMeterMapping =
  vm_vehicleId :: string
  vm_meterId :: string

text \<open>The five relations; each repository of the services is one of them.\<close>

record Database =
  vehicleHistoryRepo :: "VehicleTelemetryHistory list"
  vehicleCurrentRepo :: "CurrentVehicleStatus list"
  meterHistoryRepo :: "MeterTelemetryHistory list"
  meterCurrentRepo :: "CurrentMeterStatus list"
  mappingRepo :: "VehicleMeterMapping list"

subsection \<open>Repository operations\<close>

text \<open>\<open>Repository.insert\<close>: one INSERT, the new row after the existing ones.\<close>

definition insert_row :: "'r list \<Rightarrow> 'r \<Rightarrow> 'r list" where
  "insert_row rows r = rows @ [r]"

text \<open>
  \<open>Repository.upsert\<close> with \<open>conflictPaths\<close> the key column:
  INSERT ... ON CONFLICT (key) DO UPDATE, which replaces the row that has the key and
  inserts when no row has it.
\<close>

fun upsert :: "('r \<Rightarrow> 'k) \<Rightarrow> 'r list \<Rightarrow> 'r \<Rightarrow> 'r list" where
  "upsert key [] r = [r]"
| "upsert key (x # xs) r = (if key x = key r then r # xs else x # upsert key xs r)"

text \<open>\<open>Repository.findOne\<close> with a \<open>where\<close> on the key column.\<close>

definition findOne :: "('r \<Rightarrow> 'k) \<Rightarrow> 'r list \<Rightarrow> 'k \<Rightarrow> 'r option" where
  "findOne key rows k = find (\<lambda>r. key r = k) rows"

text \<open>
  The value of a \<open>timestamptz\<close> column: an Invalid Date is not one. Every instant
  is taken as storable; the range of the column type is not part of the model.
\<close>

fun timestamptz :: "Date \<Rightarrow> int option" where
  "timestamptz (Instant t) = Some t"
| "timestamptz Invalid_Date = None"

text \<open>
  The rows the statements carry. A field of the object literal that is \<open>undefined\<close>
  (\<open>None\<close>) leaves a NOT NULL column without a value, so there is no row and the
  database rejects the statement.
\<close>

definition vehicleHistoryRow ::
  "string option \<Rightarrow> number option \<Rightarrow> number option \<Rightarrow> number option \<Rightarrow> Date
     \<Rightarrow> VehicleTelemetryHistory option" where
  "vehicleHistoryRow vehicleId soc kwhDeliveredDc batteryTemp ts =
     do {
       v \<leftarrow> vehicleId; s \<leftarrow> soc; k \<leftarrow> kwhDeliveredDc; b \<leftarrow> batteryTemp;
       t \<leftarrow> timestamptz ts;
       Some \<lparr>vh_vehicleId = v, vh_soc = s, vh_kwhDeliveredDc = k, vh_batteryTemp = b,
             vh_timestamp = t\<rparr>
     }"

definition vehicleCurrentRow ::
  "string option \<Rightarrow> number option \<Rightarrow> number option \<Rightarrow> number option \<Rightarrow> Date
     \<Rightarrow> CurrentVehicleStatus option" where
  "vehicleCurrentRow vehicleId soc lastKwhDeliveredDc batteryTemp lastUpdatedAt =
     do {
       v \<leftarrow> vehicleId; s \<leftarrow> soc; k \<leftarrow> lastKwhDeliveredDc; b \<leftarrow> batteryTemp;
       t \<leftarrow> timestamptz lastUpdatedAt;
       Some \<lparr>cv_vehicleId = v, cv_soc = s, cv_lastKwhDeliveredDc = k, cv_batteryTemp = b,
             cv_lastUpdatedAt = t\<rparr>
     }"

definition meterHistoryRow ::
  "string option \<Rightarrow> number option \<Rightarrow> number option \<Rightarrow> Date
     \<Rightarrow> MeterTelemetryHistory option" where
  "meterHistoryRow meterId kwhConsumedAc voltage ts =
     do {
       m \<leftarrow> meterId; k \<leftarrow> kwhConsumedAc; u \<leftarrow> voltage;
       t \<leftarrow> timestamptz ts;
       Some \<lparr>mh_meterId = m, mh_kwhConsumedAc = k, mh_voltage = u, mh_timestamp = t\<rparr>
     }"

definition meterCurrentRow ::
  "string option \<Rightarrow> number option \<Rightarrow> number option \<Rightarrow> Date
     \<Rightarrow> CurrentMeterStatus option" where
  "meterCurrentRow meterId lastKwhConsumedAc voltage lastUpdatedAt =
     do {
       m \<leftarrow> meterId; k \<leftarrow> lastKwhConsumedAc; u \<leftarrow> voltage;
       t \<leftarrow> timestamptz lastUpdatedAt;
       Some \<lparr>cm_meterId = m, cm_lastKwhConsumedAc = k, cm_voltage = u,
             cm_lastUpdatedAt = t\<rparr>
     }"

section \<open>Telemetry ingestion\<close>

text \<open>
  Modelled from the spec: the request body is typed
  \<open>MeterTelemetryDto | VehicleTelemetryDto\<close>, and the two DTO classes are not among
  the sources. The fields and their types are those of the spec's payload shapes
  (section 6), which are the fields the controller tests and the service reads. The
  body is a JSON object, so each field is present with a value of its type (\<open>Some\<close>)
  or absent (\<open>None\<close>, read as \<open>undefined\<close>); \<open>'meterId' in payload\<close> is
  \<open>p_meterId payload \<noteq> None\<close>.
\<close>

record TelemetryPayload =
  p_vehicleId :: "string option"
  p_meterId :: "string option"
  p_soc :: "number option"
  p_kwhDeliveredDc :: "number option"
  p_batteryTemp :: "number option"
  p_kwhConsumedAc :: "number option"
  p_voltage :: "number option"
  p_timestamp :: "string option"

text \<open>
  \<open>TelemetryService.ingestVehicle\<close>: the history INSERT, then the current-status
  UPSERT on \<open>vehicleId\<close>, each awaited on its own (no transaction): the result is
  the thrown error or the returned status, and the database as the call leaves it.
\<close>

definition ingestVehicle ::
  "date_parser \<Rightarrow> Database \<Rightarrow> TelemetryPayload \<Rightarrow> (error + string) \<times> Database" where
  "ingestVehicle parse db data =
     (let timestamp = new_Date parse (p_timestamp data) in
      case vehicleHistoryRow (p_vehicleId data) (p_soc data) (p_kwhDeliveredDc data)
             (p_batteryTemp data) timestamp of
        None \<Rightarrow> (Inl QueryFailedError, db)
      | Some h \<Rightarrow>
          (let db1 = db\<lparr>vehicleHistoryRepo := insert_row (vehicleHistoryRepo db) h\<rparr> in
           case vehicleCurrentRow (p_vehicleId data) (p_soc data) (p_kwhDeliveredDc data)
                  (p_batteryTemp data) timestamp of
             None \<Rightarrow> (Inl QueryFailedError, db1)
           | Some c \<Rightarrow>
               (Inr ''vehicle telemetry ingested'',
                db1\<lparr>vehicleCurrentRepo :=
                      upsert cv_vehicleId (vehicleCurrentRepo db1) c\<rparr>)))"

text \<open>\<open>TelemetryService.ingestMeter\<close>, the same two statements on the meter relations.\<close>

definition ingestMeter ::
  "date_parser \<Rightarrow> Database \<Rightarrow> TelemetryPayload \<Rightarrow> (error + string) \<times> Database" where
  "ingestMeter parse db data =
     (let timestamp = new_Date parse (p_timestamp data) in
      case meterHistoryRow (p_meterId data) (p_kwhConsumedAc data) (p_voltage data)
             timestamp of
        None \<Rightarrow> (Inl QueryFailedError, db)
      | Some h \<Rightarrow>
          (let db1 = db\<lparr>meterHistoryRepo := insert_row (meterHistoryRepo db) h\<rparr> in
           case meterCurrentRow (p_meterId data) (p_kwhConsumedAc data) (p_voltage data)
                  timestamp of
             None \<Rightarrow> (Inl QueryFailedError, db1)
           | Some c \<Rightarrow>
               (Inr ''meter telemetry ingested'',
                db1\<lparr>meterCurrentRepo := upsert cm_meterId (meterCurrentRepo db1) c\<rparr>)))"

text \<open>
  \<open>TelemetryController.ingest\<close>: the \<open>meterId\<close> test first, then the
  \<open>vehicleId\<close> test, then the exception.
\<close>

definition ingest ::
  "date_parser \<Rightarrow> Database \<Rightarrow> TelemetryPayload \<Rightarrow> (error + string) \<times> Database" where
  "ingest parse db payload =
     (if p_meterId payload \<noteq> None then ingestMeter parse db payload
      else if p_vehicleId payload \<noteq> None then ingestVehicle parse db payload
      else (Inl (BadRequestException
                   ''Unknown telemetry type. Must include either meterId or vehicleId''),
            db))"

section \<open>Analytics\<close>

subsection \<open>SQL aggregates\<close>

text \<open>
  \<open>SUM\<close> and \<open>AVG\<close> over no row are NULL (\<open>None\<close>); \<open>COALESCE(a, 0)\<close>
  replaces NULL by its second argument.
\<close>

definition sql_SUM :: "number list \<Rightarrow> number option" where
  "sql_SUM xs = (if xs = [] then None else Some (sum_list xs))"

definition sql_AVG :: "number list \<Rightarrow> number option" where
  "sql_AVG xs = (if xs = [] then None else Some (sum_list xs / of_nat (length xs)))"

definition sql_COALESCE :: "number option \<Rightarrow> number \<Rightarrow> number" where
  "sql_COALESCE a d = (case a of None \<Rightarrow> d | Some x \<Rightarrow> x)"

text \<open>
  The two query-builder statements of \<open>getVehiclePerformance\<close>: the rows of one
  device with \<open>timestamp >= since\<close>, and the aggregates selected over them
  (\<open>dc_delivered\<close> and \<open>avg_temp\<close>; \<open>ac_consumed\<close>).
\<close>

definition vehicleRowsSince ::
  "VehicleTelemetryHistory list \<Rightarrow> string \<Rightarrow> int \<Rightarrow> VehicleTelemetryHistory list" where
  "vehicleRowsSince rows vehicleId since =
     filter (\<lambda>v. vh_vehicleId v = vehicleId \<and> since \<le> vh_timestamp v) rows"

definition meterRowsSince ::
  "MeterTelemetryHistory list \<Rightarrow> string \<Rightarrow> int \<Rightarrow> MeterTelemetryHistory list" where
  "meterRowsSince rows meterId since =
     filter (\<lambda>m. mh_meterId m = meterId \<and> since \<le> mh_timestamp m) rows"

definition dc_delivered :: "VehicleTelemetryHistory list \<Rightarrow> string \<Rightarrow> int \<Rightarrow> number" where
  "dc_delivered rows vehicleId since =
     sql_COALESCE (sql_SUM (map vh_kwhDeliveredDc (vehicleRowsSince rows vehicleId since))) 0"

definition avg_temp :: "VehicleTelemetryHistory list \<Rightarrow> string \<Rightarrow> int \<Rightarrow> number" where
  "avg_temp rows vehicleId since =
     sql_COALESCE (sql_AVG (map vh_batteryTemp (vehicleRowsSince rows vehicleId since))) 0"

definition ac_consumed :: "MeterTelemetryHistory list \<Rightarrow> string \<Rightarrow> int \<Rightarrow> number" where
  "ac_consumed rows meterId since =
     sql_COALESCE (sql_SUM (map mh_kwhConsumedAc (meterRowsSince rows meterId since))) 0"

subsection \<open>The analytics service\<close>

record MappingResponse =
  mr_vehicleId :: string
  mr_meterId :: string
  mr_message :: string

text \<open>\<open>AnalyticsService.createMapping\<close>: the upsert on \<open>vehicleId\<close>.\<close>

definition createMapping ::
  "Database \<Rightarrow> string \<Rightarrow> string \<Rightarrow> (error + MappingResponse) \<times> Database" where
  "createMapping db vehicleId meterId =
     (Inr \<lparr>mr_vehicleId = vehicleId, mr_meterId = meterId,
           mr_message = ''Vehicle-meter mapping created/updated successfully''\<rparr>,
      db\<lparr>mappingRepo :=
           upsert vm_vehicleId (mappingRepo db)
             \<lparr>vm_vehicleId = vehicleId, vm_meterId = meterId\<rparr>\<rparr>)"

text \<open>\<open>AnalyticsService.getMapping\<close>.\<close>

definition getMapping :: "Database \<Rightarrow> string \<Rightarrow> error + VehicleMeterMapping" where
  "getMapping db vehicleId =
     (case findOne vm_vehicleId (mappingRepo db) vehicleId of
        None \<Rightarrow> Inl (NotFoundException (''No meter mapped to vehicle '' @ vehicleId))
      | Some mapping \<Rightarrow> Inr mapping)"

text \<open>The response of \<open>getVehiclePerformance\<close>, with its two nested blocks.\<close>

record Energy =
  acConsumed :: number
  dcDelivered :: number
  efficiencyRatio :: number

record Battery =
  avgTemperature :: number

record Performance =
  pf_vehicleId :: string
  period :: string
  energy :: Energy
  battery :: Battery

text \<open>The statements a call sends to the database, in the order it sends them.\<close>

datatype Statement =
    MappingFindOne string
  | VehicleHistoryAggregate string int
  | MeterHistoryAggregate string int

text \<open>
  \<open>AnalyticsService.getVehiclePerformance\<close>. \<open>now\<close> is \<open>Date.now()\<close>, in
  milliseconds. The result is the thrown error or the response, and the statements the
  call has sent.
\<close>

definition getVehiclePerformance ::
  "int \<Rightarrow> Database \<Rightarrow> string \<Rightarrow> (error + Performance) \<times> Statement list" where
  "getVehiclePerformance now db vehicleId =
     (let since = now - 24 * 60 * 60 * 1000 in
      case findOne vm_vehicleId (mappingRepo db) vehicleId of
        None \<Rightarrow>
          (Inl (NotFoundException (''No meter mapped to vehicle '' @ vehicleId)),
           [MappingFindOne vehicleId])
      | Some mapping \<Rightarrow>
          (let meterId = vm_meterId mapping;
               totalDc = dc_delivered (vehicleHistoryRepo db) vehicleId since;
               totalAc = ac_consumed (meterHistoryRepo db) meterId since
           in (Inr \<lparr>pf_vehicleId = vehicleId,
                     period = ''last_24_hours'',
                     energy = \<lparr>acConsumed = toFixed totalAc 2,
                                dcDelivered = toFixed totalDc 2,
                                efficiencyRatio =
                                  (if totalAc > 0 then toFixed (totalDc / totalAc) 2 else 0)\<rparr>,
                     battery = \<lparr>avgTemperature =
                                  toFixed (avg_temp (vehicleHistoryRepo db) vehicleId since) 2\<rparr>\<rparr>,
               [MappingFindOne vehicleId,
                VehicleHistoryAggregate vehicleId since,
                MeterHistoryAggregate meterId since])))"

section \<open>The HTTP surface\<close>

text \<open>
  The routes of \<open>TelemetryController\<close> and \<open>AnalyticsController\<close>, each with the
  service call it makes. \<open>handle\<close> gives the answer to a request and the database
  after it; \<open>now\<close> is the clock when the request is served. The two GET routes call
  services that send no statement that writes, so they give the database back as it
  was.
\<close>

datatype Request =
    PostTelemetry TelemetryPayload
  | GetPerformance string
  | PostMappings string string
  | PutMappings string string
  | GetMappings string

datatype Response =
    TelemetryAnswer "error + string"
  | PerformanceAnswer "error + Performance"
  | MappingWritten "error + MappingResponse"
  | MappingAnswer "error + VehicleMeterMapping"

fun handle :: "date_parser \<Rightarrow> int \<Rightarrow> Database \<Rightarrow> Request \<Rightarrow> Response \<times> Database" where
  "handle parse now db (PostTelemetry payload) =
     (TelemetryAnswer (fst (ingest parse db payload)), snd (ingest parse db payload))"
| "handle parse now db (GetPerformance vehicleId) =
     (PerformanceAnswer (fst (getVehiclePerformance now db vehicleId)), db)"
| "handle parse now db (PostMappings vehicleId meterId) =
     (MappingWritten (fst (createMapping db vehicleId meterId)),
      snd (createMapping db vehicleId meterId))"
| "handle parse now db (PutMappings vehicleId meterId) =
     (MappingWritten (fst (createMapping db vehicleId meterId)),
      snd (createMapping db vehicleId meterId))"
| "handle parse now db (GetMappings vehicleId) =
     (MappingAnswer (getMapping db vehicleId), db)"

text \<open>
  A sequence of requests, each with the clock at which it is served, served one after
  the other; the result is the database they leave.
\<close>

fun serve :: "date_parser \<Rightarrow> Database \<Rightarrow> (int \<times> Request) list \<Rightarrow> Database" where
  "serve parse db [] = db"
| "serve parse db ((now, r) # rs) = serve parse (snd (handle parse now db r)) rs"

section \<open>Concrete inputs\<close>

text \<open>
  A parser that agrees with \<open>Date.parse\<close> on the strings used below: two ISO-8601
  instants, and a string that is no date.
\<close>

definition parse_example :: date_parser where
  "parse_example s =
     (if s = ''2026-01-01T00:00:00Z'' then Some 1767225600000
      else if s = ''2026-01-01T06:00:00Z'' then Some 1767247200000
      else None)"

definition empty_database :: Database where
  "empty_database =
     \<lparr>vehicleHistoryRepo = [], vehicleCurrentRepo = [], meterHistoryRepo = [],
      meterCurrentRepo = [], mappingRepo = []\<rparr>"

text \<open>The two readings of the spec's scenario.\<close>

definition vehicle_EV1 :: TelemetryPayload where
  "vehicle_EV1 =
     \<lparr>p_vehicleId = Some ''EV-1'', p_meterId = None, p_soc = Some 50,
      p_kwhDeliveredDc = Some 10, p_batteryTemp = Some 25, p_kwhConsumedAc = None,
      p_voltage = None, p_timestamp = Some ''2026-01-01T00:00:00Z''\<rparr>"

definition meter_M1 :: TelemetryPayload where
  "meter_M1 =
     \<lparr>p_vehicleId = None, p_meterId = Some ''M-1'', p_soc = None,
      p_kwhDeliveredDc = None, p_batteryTemp = None, p_kwhConsumedAc = Some 12,
      p_voltage = Some 230, p_timestamp = Some ''2026-01-01T00:00:00Z''\<rparr>"

text \<open>A body with both identifiers and the fields of both kinds.\<close>

definition both_identifiers :: TelemetryPayload where
  "both_identifiers =
     \<lparr>p_vehicleId = Some ''EV-1'', p_meterId = Some ''M-1'', p_soc = Some 50,
      p_kwhDeliveredDc = Some 10, p_batteryTemp = Some 25, p_kwhConsumedAc = Some 12,
      p_voltage = Some 230, p_timestamp = Some ''2026-01-01T00:00:00Z''\<rparr>"

text \<open>A body with neither identifier.\<close>

definition no_identifier :: TelemetryPayload where
  "no_identifier =
     \<lparr>p_vehicleId = None, p_meterId = None, p_soc = Some 50,
      p_kwhDeliveredDc = Some 10, p_batteryTemp = Some 25, p_kwhConsumedAc = None,
      p_voltage = None, p_timestamp = Some ''2026-01-01T00:00:00Z''\<rparr>"

text \<open>A vehicle reading and a meter reading whose timestamp is no date.\<close>

definition vehicle_malformed :: TelemetryPayload where
  "vehicle_malformed = vehicle_EV1\<lparr>p_timestamp := Some ''not-a-date''\<rparr>"

definition meter_malformed :: TelemetryPayload where
  "meter_malformed = meter_M1\<lparr>p_timestamp := Some ''not-a-date''\<rparr>"

text \<open>
  A database in which vehicle EV-1 already has a status row, written from a reading of
  06:00, six hours after the reading of \<open>vehicle_EV1\<close>.
\<close>

definition newer_status :: Database where
  "newer_status =
     empty_database\<lparr>vehicleCurrentRepo :=
       [\<lparr>cv_vehicleId = ''EV-1'', cv_soc = 80, cv_lastKwhDeliveredDc = 30,
         cv_batteryTemp = 31, cv_lastUpdatedAt = 1767247200000\<rparr>]\<rparr>"

text \<open>One hour after the readings, and two days after them.\<close>

definition one_hour_later :: int where
  "one_hour_later = 1767225600000 + 60 * 60 * 1000"

definition two_days_later :: int where
  "two_days_later = 1767225600000 + 2 * 24 * 60 * 60 * 1000"

text \<open>
  The spec's scenario: both readings ingested and EV-1 mapped to M-1, all within the
  hour after the readings. In
  \<open>scenario_86_100\<close> the vehicle delivered 86 and the meter consumed 100; in
  \<open>scenario_negative_ac\<close> the meter reported -100.
\<close>

definition scenario :: Database where
  "scenario =
     serve parse_example empty_database
       [(one_hour_later, PostTelemetry vehicle_EV1),
        (one_hour_later, PostTelemetry meter_M1),
        (one_hour_later, PostMappings ''EV-1'' ''M-1'')]"

definition scenario_86_100 :: Database where
  "scenario_86_100 =
     serve parse_example empty_database
       [(one_hour_later, PostTelemetry (vehicle_EV1\<lparr>p_kwhDeliveredDc := Some 86\<rparr>)),
        (one_hour_later, PostTelemetry (meter_M1\<lparr>p_kwhConsumedAc := Some 100\<rparr>)),
        (one_hour_later, PostMappings ''EV-1'' ''M-1'')]"

definition scenario_negative_ac :: Database where
  "scenario_negative_ac =
     serve parse_example empty_database
       [(one_hour_later, PostTelemetry (vehicle_EV1\<lparr>p_kwhDeliveredDc := Some 86\<rparr>)),
        (one_hour_later, PostTelemetry (meter_M1\<lparr>p_kwhConsumedAc := Some (- 100)\<rparr>)),
        (one_hour_later, PostMappings ''EV-1'' ''M-1'')]"

section \<open>Facts about the repository operations\<close>

lemma findOne_upsert: "findOne key (upsert key rows r) (key r) = Some r"
  by (induction rows) (auto simp: findOne_def)

lemma findOne_upsert_other:
  "k \<noteq> key r \<Longrightarrow> findOne key (upsert key rows r) k = findOne key rows k"
  by (induction rows) (auto simp: findOne_def)

lemma keys_upsert:
  "map key (upsert key rows r) =
     (if key r \<in> set (map key rows) then map key rows else map key rows @ [key r])"
  by (induction rows) auto

lemma distinct_upsert:
  "distinct (map key rows) \<Longrightarrow> distinct (map key (upsert key rows r))"
  by (simp add: keys_upsert)

lemma filter_upsert:
  "distinct (map key rows) \<Longrightarrow> filter (\<lambda>x. key x = key r) (upsert key rows r) = [r]"
proof (induction rows)
  case Nil
  then show ?case by simp
next
  case (Cons x xs)
  show ?case
  proof (cases "key x = key r")
    case True
    with Cons.prems have "key r \<notin> key ` set xs" by auto
    then have "filter (\<lambda>y. key y = key r) xs = []"
      by (induction xs) auto
    with True show ?thesis by simp
  next
    case False
    with Cons show ?thesis by simp
  qed
qed

lemma findOne_None: "k \<notin> key ` set rows \<Longrightarrow> findOne key rows k = None"
  by (induction rows) (auto simp: findOne_def)

section \<open>Facts about rounding\<close>

lemma toFixed_digits_of_int: "toFixed_digits (of_int n) f = n * 10 ^ f"
proof -
  have "(of_int n :: real) * 10 ^ f + 1 / 2 = of_int (n * 10 ^ f) + 1 / 2" by simp
  then have "toFixed_digits (of_int n) f = \<lfloor>(of_int (n * 10 ^ f) :: real) + 1 / 2\<rfloor>"
    by (simp only: toFixed_digits_def)
  also have "\<dots> = n * 10 ^ f" by (simp add: floor_unique)
  finally show ?thesis .
qed

lemma toFixed_of_int: "toFixed (of_int n) f = of_int n"
proof (cases "n < 0")
  case True
  have "toFixed_digits (- of_int n) f = (- n) * 10 ^ f"
    using toFixed_digits_of_int [of "- n" f] by simp
  with True show ?thesis by (simp add: toFixed_def)
next
  case False
  then show ?thesis by (simp add: toFixed_def toFixed_digits_of_int)
qed

lemma toFixed_zero: "toFixed 0 f = 0"
  by (simp add: toFixed_def toFixed_digits_def)

lemma toFixed_digits_near:
  "\<bar>of_int (toFixed_digits x f) / 10 ^ f - x\<bar> \<le> 1 / (2 * 10 ^ f)"
proof -
  let ?n = "toFixed_digits x f"
  have lo: "of_int ?n \<le> x * 10 ^ f + 1 / 2"
    unfolding toFixed_digits_def by (rule of_int_floor_le)
  have hi: "x * 10 ^ f + 1 / 2 < of_int ?n + 1"
    unfolding toFixed_digits_def by linarith
  have pos: "(0::real) < 10 ^ f" by simp
  have "\<bar>of_int ?n - x * 10 ^ f\<bar> \<le> 1 / 2" using lo hi by linarith
  then have "\<bar>of_int ?n - x * 10 ^ f\<bar> / 10 ^ f \<le> (1 / 2) / 10 ^ f"
    by (rule divide_right_mono) simp
  moreover have "\<bar>of_int ?n - x * 10 ^ f\<bar> / 10 ^ f = \<bar>of_int ?n / 10 ^ f - x\<bar>"
  proof -
    have "\<bar>of_int ?n - x * 10 ^ f\<bar> / 10 ^ f = \<bar>(of_int ?n - x * 10 ^ f) / 10 ^ f\<bar>"
      using pos by simp
    also have "(of_int ?n - x * 10 ^ f) / 10 ^ f = of_int ?n / 10 ^ f - x"
      using pos by (simp add: diff_divide_distrib)
    finally show ?thesis .
  qed
  ultimately show ?thesis by simp
qed

lemma toFixed_near: "\<bar>toFixed x f - x\<bar> \<le> 1 / (2 * 10 ^ f)"
proof (cases "x < 0")
  case True
  have "\<bar>toFixed x f - x\<bar> = \<bar>of_int (toFixed_digits (- x) f) / 10 ^ f - (- x)\<bar>"
    using True by (simp add: toFixed_def abs_minus_commute)
  then show ?thesis using toFixed_digits_near [of "- x" f] by simp
next
  case False
  then show ?thesis using toFixed_digits_near [of x f] by (simp add: toFixed_def)
qed

lemma toFixed_decimals: "\<exists>n::int. toFixed x f = of_int n / 10 ^ f"
proof (cases "x < 0")
  case True
  then have "toFixed x f = of_int (- toFixed_digits (- x) f) / 10 ^ f"
    by (simp add: toFixed_def)
  then show ?thesis by blast
next
  case False
  then have "toFixed x f = of_int (toFixed_digits x f) / 10 ^ f"
    by (simp add: toFixed_def)
  then show ?thesis by blast
qed

lemma toFixed_rounded: "rounded_to_decimals f x (toFixed x f)"
proof -
  obtain n :: int where n: "toFixed x f = of_int n / 10 ^ f"
    using toFixed_decimals by blast
  have "toFixed x f * 10 ^ f = of_int n" by (simp add: n)
  then have "toFixed x f * 10 ^ f = of_int \<lfloor>toFixed x f * 10 ^ f\<rfloor>" by simp
  with toFixed_near [of x f] show ?thesis by (simp add: rounded_to_decimals_def)
qed

section \<open>Facts about the ingestion service\<close>

lemma vehicleHistoryRow_Some:
  "vehicleHistoryRow v s k b ts = Some h \<longleftrightarrow>
     (\<exists>v' s' k' b' t. v = Some v' \<and> s = Some s' \<and> k = Some k' \<and> b = Some b' \<and>
        ts = Instant t \<and>
        h = \<lparr>vh_vehicleId = v', vh_soc = s', vh_kwhDeliveredDc = k', vh_batteryTemp = b',
              vh_timestamp = t\<rparr>)"
  by (cases v; cases s; cases k; cases b; cases ts) (auto simp: vehicleHistoryRow_def)

lemma vehicleCurrentRow_Some:
  "vehicleCurrentRow v s k b ts = Some c \<longleftrightarrow>
     (\<exists>v' s' k' b' t. v = Some v' \<and> s = Some s' \<and> k = Some k' \<and> b = Some b' \<and>
        ts = Instant t \<and>
        c = \<lparr>cv_vehicleId = v', cv_soc = s', cv_lastKwhDeliveredDc = k',
              cv_batteryTemp = b', cv_lastUpdatedAt = t\<rparr>)"
  by (cases v; cases s; cases k; cases b; cases ts) (auto simp: vehicleCurrentRow_def)

lemma meterHistoryRow_Some:
  "meterHistoryRow m k u ts = Some h \<longleftrightarrow>
     (\<exists>m' k' u' t. m = Some m' \<and> k = Some k' \<and> u = Some u' \<and> ts = Instant t \<and>
        h = \<lparr>mh_meterId = m', mh_kwhConsumedAc = k', mh_voltage = u', mh_timestamp = t\<rparr>)"
  by (cases m; cases k; cases u; cases ts) (auto simp: meterHistoryRow_def)

lemma meterCurrentRow_Some:
  "meterCurrentRow m k u ts = Some c \<longleftrightarrow>
     (\<exists>m' k' u' t. m = Some m' \<and> k = Some k' \<and> u = Some u' \<and> ts = Instant t \<and>
        c = \<lparr>cm_meterId = m', cm_lastKwhConsumedAc = k', cm_voltage = u',
              cm_lastUpdatedAt = t\<rparr>)"
  by (cases m; cases k; cases u; cases ts) (auto simp: meterCurrentRow_def)

lemma vehicleHistoryRow_Invalid [simp]: "vehicleHistoryRow v s k b Invalid_Date = None"
  by (cases v; cases s; cases k; cases b) (auto simp: vehicleHistoryRow_def)

lemma meterHistoryRow_Invalid [simp]: "meterHistoryRow m k u Invalid_Date = None"
  by (cases m; cases k; cases u) (auto simp: meterHistoryRow_def)

lemma ingestVehicle_valid:
  assumes "p_vehicleId data = Some v" and "p_soc data = Some s"
    and "p_kwhDeliveredDc data = Some k" and "p_batteryTemp data = Some b"
    and "new_Date parse (p_timestamp data) = Instant t"
  shows "ingestVehicle parse db data =
     (Inr ''vehicle telemetry ingested'',
      db\<lparr>vehicleHistoryRepo := vehicleHistoryRepo db @
             [\<lparr>vh_vehicleId = v, vh_soc = s, vh_kwhDeliveredDc = k, vh_batteryTemp = b,
               vh_timestamp = t\<rparr>],
          vehicleCurrentRepo := upsert cv_vehicleId (vehicleCurrentRepo db)
             \<lparr>cv_vehicleId = v, cv_soc = s, cv_lastKwhDeliveredDc = k, cv_batteryTemp = b,
              cv_lastUpdatedAt = t\<rparr>\<rparr>)"
  using assms
  by (simp add: ingestVehicle_def vehicleHistoryRow_def vehicleCurrentRow_def insert_row_def)

lemma ingestMeter_valid:
  assumes "p_meterId data = Some m" and "p_kwhConsumedAc data = Some k"
    and "p_voltage data = Some u" and "new_Date parse (p_timestamp data) = Instant t"
  shows "ingestMeter parse db data =
     (Inr ''meter telemetry ingested'',
      db\<lparr>meterHistoryRepo := meterHistoryRepo db @
             [\<lparr>mh_meterId = m, mh_kwhConsumedAc = k, mh_voltage = u, mh_timestamp = t\<rparr>],
          meterCurrentRepo := upsert cm_meterId (meterCurrentRepo db)
             \<lparr>cm_meterId = m, cm_lastKwhConsumedAc = k, cm_voltage = u,
              cm_lastUpdatedAt = t\<rparr>\<rparr>)"
  using assms
  by (simp add: ingestMeter_def meterHistoryRow_def meterCurrentRow_def insert_row_def)

lemma ingestVehicle_Inr:
  assumes "fst (ingestVehicle parse db data) = Inr status"
  shows "\<exists>v s k b t. p_vehicleId data = Some v \<and> p_soc data = Some s \<and>
           p_kwhDeliveredDc data = Some k \<and> p_batteryTemp data = Some b \<and>
           new_Date parse (p_timestamp data) = Instant t"
proof (cases "vehicleHistoryRow (p_vehicleId data) (p_soc data) (p_kwhDeliveredDc data)
                (p_batteryTemp data) (new_Date parse (p_timestamp data))")
  case None
  with assms show ?thesis by (simp add: ingestVehicle_def)
next
  case (Some h)
  then show ?thesis unfolding vehicleHistoryRow_Some by blast
qed

lemma ingestMeter_Inr:
  assumes "fst (ingestMeter parse db data) = Inr status"
  shows "\<exists>m k u t. p_meterId data = Some m \<and> p_kwhConsumedAc data = Some k \<and>
           p_voltage data = Some u \<and> new_Date parse (p_timestamp data) = Instant t"
proof (cases "meterHistoryRow (p_meterId data) (p_kwhConsumedAc data) (p_voltage data)
                (new_Date parse (p_timestamp data))")
  case None
  with assms show ?thesis by (simp add: ingestMeter_def)
next
  case (Some h)
  then show ?thesis unfolding meterHistoryRow_Some by blast
qed

lemma ingestVehicle_Invalid:
  "new_Date parse (p_timestamp data) = Invalid_Date \<Longrightarrow>
     ingestVehicle parse db data = (Inl QueryFailedError, db)"
  by (simp add: ingestVehicle_def)

lemma ingestMeter_Invalid:
  "new_Date parse (p_timestamp data) = Invalid_Date \<Longrightarrow>
     ingestMeter parse db data = (Inl QueryFailedError, db)"
  by (simp add: ingestMeter_def)

text \<open>What either service call leaves of the relations of the other kind, and of the histories.\<close>

lemma ingestVehicle_frame:
  "meterHistoryRepo (snd (ingestVehicle parse db data)) = meterHistoryRepo db \<and>
   meterCurrentRepo (snd (ingestVehicle parse db data)) = meterCurrentRepo db \<and>
   mappingRepo (snd (ingestVehicle parse db data)) = mappingRepo db \<and>
   prefix (vehicleHistoryRepo db) (vehicleHistoryRepo (snd (ingestVehicle parse db data)))"
  by (simp add: ingestVehicle_def insert_row_def Let_def split: option.splits)

lemma ingestMeter_frame:
  "vehicleHistoryRepo (snd (ingestMeter parse db data)) = vehicleHistoryRepo db \<and>
   vehicleCurrentRepo (snd (ingestMeter parse db data)) = vehicleCurrentRepo db \<and>
   mappingRepo (snd (ingestMeter parse db data)) = mappingRepo db \<and>
   prefix (meterHistoryRepo db) (meterHistoryRepo (snd (ingestMeter parse db data)))"
  by (simp add: ingestMeter_def insert_row_def Let_def split: option.splits)

lemma ingest_histories:
  "prefix (vehicleHistoryRepo db) (vehicleHistoryRepo (snd (ingest parse db payload))) \<and>
   prefix (meterHistoryRepo db) (meterHistoryRepo (snd (ingest parse db payload)))"
  using ingestVehicle_frame [of parse db payload] ingestMeter_frame [of parse db payload]
  by (simp add: ingest_def)

lemma handle_histories:
  "prefix (vehicleHistoryRepo db) (vehicleHistoryRepo (snd (handle parse now db request))) \<and>
   prefix (meterHistoryRepo db) (meterHistoryRepo (snd (handle parse now db request)))"
  using ingest_histories [of db parse]
  by (cases request) (simp_all add: createMapping_def)

lemma serve_histories:
  "prefix (vehicleHistoryRepo db) (vehicleHistoryRepo (serve parse db requests)) \<and>
   prefix (meterHistoryRepo db) (meterHistoryRepo (serve parse db requests))"
proof (induction requests arbitrary: db)
  case Nil
  show ?case by simp
next
  case (Cons r rs)
  obtain now request where r: "r = (now, request)" by (cases r)
  from handle_histories [of db parse now request]
    Cons.IH [of "snd (handle parse now db request)"]
  show ?case unfolding r by (auto intro: prefix_order.trans)
qed

section \<open>Facts about the analytics service\<close>

lemma dc_delivered_sum:
  "dc_delivered rows vehicleId since =
     sum_list (map vh_kwhDeliveredDc (vehicleRowsSince rows vehicleId since))"
  by (simp add: dc_delivered_def sql_SUM_def sql_COALESCE_def)

lemma ac_consumed_sum:
  "ac_consumed rows meterId since =
     sum_list (map mh_kwhConsumedAc (meterRowsSince rows meterId since))"
  by (simp add: ac_consumed_def sql_SUM_def sql_COALESCE_def)

lemma avg_temp_no_rows: "vehicleRowsSince rows vehicleId since = [] \<Longrightarrow> avg_temp rows vehicleId since = 0"
  by (simp add: avg_temp_def sql_AVG_def sql_COALESCE_def)

lemma getVehiclePerformance_mapped:
  assumes "findOne vm_vehicleId (mappingRepo db) vehicleId = Some mapping"
  shows "fst (getVehiclePerformance now db vehicleId) =
     Inr \<lparr>pf_vehicleId = vehicleId,
          period = ''last_24_hours'',
          energy =
            \<lparr>acConsumed =
               toFixed (ac_consumed (meterHistoryRepo db) (vm_meterId mapping)
                          (now - 24 * 60 * 60 * 1000)) 2,
             dcDelivered =
               toFixed (dc_delivered (vehicleHistoryRepo db) vehicleId
                          (now - 24 * 60 * 60 * 1000)) 2,
             efficiencyRatio =
               (if 0 < ac_consumed (meterHistoryRepo db) (vm_meterId mapping)
                         (now - 24 * 60 * 60 * 1000)
                then toFixed
                       (dc_delivered (vehicleHistoryRepo db) vehicleId
                          (now - 24 * 60 * 60 * 1000) /
                        ac_consumed (meterHistoryRepo db) (vm_meterId mapping)
                          (now - 24 * 60 * 60 * 1000)) 2
                else 0)\<rparr>,
          battery =
            \<lparr>avgTemperature =
               toFixed (avg_temp (vehicleHistoryRepo db) vehicleId
                          (now - 24 * 60 * 60 * 1000)) 2\<rparr>\<rparr>"
  using assms by (simp add: getVehiclePerformance_def Let_def)

section \<open>The concrete inputs, evaluated\<close>

lemmas inputs =
  parse_example_def empty_database_def vehicle_EV1_def meter_M1_def both_identifiers_def
  no_identifier_def vehicle_malformed_def meter_malformed_def newer_status_def

lemmas calls =
  ingest_def ingestMeter_def ingestVehicle_def new_Date_def meterHistoryRow_def
  meterCurrentRow_def vehicleHistoryRow_def vehicleCurrentRow_def insert_row_def
  createMapping_def Let_def

lemma scenario_rows:
  "scenario =
     \<lparr>vehicleHistoryRepo =
        [\<lparr>vh_vehicleId = ''EV-1'', vh_soc = 50, vh_kwhDeliveredDc = 10, vh_batteryTemp = 25,
          vh_timestamp = 1767225600000\<rparr>],
      vehicleCurrentRepo =
        [\<lparr>cv_vehicleId = ''EV-1'', cv_soc = 50, cv_lastKwhDeliveredDc = 10,
          cv_batteryTemp = 25, cv_lastUpdatedAt = 1767225600000\<rparr>],
      meterHistoryRepo =
        [\<lparr>mh_meterId = ''M-1'', mh_kwhConsumedAc = 12, mh_voltage = 230,
          mh_timestamp = 1767225600000\<rparr>],
      meterCurrentRepo =
        [\<lparr>cm_meterId = ''M-1'', cm_lastKwhConsumedAc = 12, cm_voltage = 230,
          cm_lastUpdatedAt = 1767225600000\<rparr>],
      mappingRepo = [\<lparr>vm_vehicleId = ''EV-1'', vm_meterId = ''M-1''\<rparr>]\<rparr>"
  by (simp add: scenario_def inputs calls)

lemma scenario_86_100_rows:
  "scenario_86_100 =
     \<lparr>vehicleHistoryRepo =
        [\<lparr>vh_vehicleId = ''EV-1'', vh_soc = 50, vh_kwhDeliveredDc = 86, vh_batteryTemp = 25,
          vh_timestamp = 1767225600000\<rparr>],
      vehicleCurrentRepo =
        [\<lparr>cv_vehicleId = ''EV-1'', cv_soc = 50, cv_lastKwhDeliveredDc = 86,
          cv_batteryTemp = 25, cv_lastUpdatedAt = 1767225600000\<rparr>],
      meterHistoryRepo =
        [\<lparr>mh_meterId = ''M-1'', mh_kwhConsumedAc = 100, mh_voltage = 230,
          mh_timestamp = 1767225600000\<rparr>],
      meterCurrentRepo =
        [\<lparr>cm_meterId = ''M-1'', cm_lastKwhConsumedAc = 100, cm_voltage = 230,
          cm_lastUpdatedAt = 1767225600000\<rparr>],
      mappingRepo = [\<lparr>vm_vehicleId = ''EV-1'', vm_meterId = ''M-1''\<rparr>]\<rparr>"
  by (simp add: scenario_86_100_def inputs calls)

lemma scenario_negative_ac_rows:
  "scenario_negative_ac =
     \<lparr>vehicleHistoryRepo =
        [\<lparr>vh_vehicleId = ''EV-1'', vh_soc = 50, vh_kwhDeliveredDc = 86, vh_batteryTemp = 25,
          vh_timestamp = 1767225600000\<rparr>],
      vehicleCurrentRepo =
        [\<lparr>cv_vehicleId = ''EV-1'', cv_soc = 50, cv_lastKwhDeliveredDc = 86,
          cv_batteryTemp = 25, cv_lastUpdatedAt = 1767225600000\<rparr>],
      meterHistoryRepo =
        [\<lparr>mh_meterId = ''M-1'', mh_kwhConsumedAc = - 100, mh_voltage = 230,
          mh_timestamp = 1767225600000\<rparr>],
      meterCurrentRepo =
        [\<lparr>cm_meterId = ''M-1'', cm_lastKwhConsumedAc = - 100, cm_voltage = 230,
          cm_lastUpdatedAt = 1767225600000\<rparr>],
      mappingRepo = [\<lparr>vm_vehicleId = ''EV-1'', vm_meterId = ''M-1''\<rparr>]\<rparr>"
  by (simp add: scenario_negative_ac_def inputs calls)

lemmas aggregates =
  findOne_def dc_delivered_sum ac_consumed_sum avg_temp_def sql_AVG_def sql_COALESCE_def
  vehicleRowsSince_def meterRowsSince_def one_hour_later_def two_days_later_def
  toFixed_def toFixed_digits_def

text \<open>
  The scenario of the spec's testable properties: asked within 24 hours of the readings,
  the performance of EV-1 is 10 delivered, 12 consumed, ratio 0.83, temperature 25.
\<close>

lemma scenario_performance:
  "getVehiclePerformance one_hour_later scenario ''EV-1'' =
     (Inr \<lparr>pf_vehicleId = ''EV-1'', period = ''last_24_hours'',
           energy = \<lparr>acConsumed = 12, dcDelivered = 10, efficiencyRatio = 83 / 100\<rparr>,
           battery = \<lparr>avgTemperature = 25\<rparr>\<rparr>,
      [MappingFindOne ''EV-1'', VehicleHistoryAggregate ''EV-1'' 1767142800000,
       MeterHistoryAggregate ''M-1'' 1767142800000])"
  by (simp add: scenario_rows getVehiclePerformance_def aggregates)

section \<open>The claims\<close>

subsection \<open>C1: which identifier decides the route\<close>

text \<open>
  C1, as the controller has it: a payload that contains a meter identifier is routed as
  meter telemetry, whether or not it also contains a vehicle identifier. The meter test
  comes first, so \<open>ingest\<close> is \<open>ingestMeter\<close> on such a payload and the two vehicle
  relations are left as they were.
\<close>

theorem ingest_meterId_takes_precedence:
  assumes "p_meterId payload \<noteq> None"
  shows "ingest parse db payload = ingestMeter parse db payload \<and>
         vehicleHistoryRepo (snd (ingest parse db payload)) = vehicleHistoryRepo db \<and>
         vehicleCurrentRepo (snd (ingest parse db payload)) = vehicleCurrentRepo db"
  using assms ingestMeter_frame [of parse db payload] by (simp add: ingest_def)

theorem ingest_meterId_takes_precedence_witness:
  "p_meterId both_identifiers \<noteq> None \<and>
   p_vehicleId both_identifiers \<noteq> None \<and>
   ingest parse_example empty_database both_identifiers =
     ingestMeter parse_example empty_database both_identifiers \<and>
   vehicleHistoryRepo (snd (ingest parse_example empty_database both_identifiers)) =
     vehicleHistoryRepo empty_database \<and>
   vehicleCurrentRepo (snd (ingest parse_example empty_database both_identifiers)) =
     vehicleCurrentRepo empty_database"
proof -
  have m: "p_meterId both_identifiers \<noteq> None" and v: "p_vehicleId both_identifiers \<noteq> None"
    by (simp_all add: both_identifiers_def)
  from m v ingest_meterId_takes_precedence [OF m, of parse_example empty_database]
  show ?thesis by blast
qed

text \<open>
  C1 as the claim states it fails: the payload \<open>both_identifiers\<close> contains both
  identifiers, and the handler answers that meter telemetry was ingested and writes no
  vehicle row, where \<open>ingestVehicle\<close> would have answered otherwise.
\<close>

theorem ingest_vehicle_precedence_counterexample:
  "p_vehicleId both_identifiers = Some ''EV-1'' \<and>
   p_meterId both_identifiers = Some ''M-1'' \<and>
   fst (ingest parse_example empty_database both_identifiers) =
     Inr ''meter telemetry ingested'' \<and>
   fst (ingestVehicle parse_example empty_database both_identifiers) =
     Inr ''vehicle telemetry ingested'' \<and>
   vehicleHistoryRepo (snd (ingest parse_example empty_database both_identifiers)) = [] \<and>
   vehicleCurrentRepo (snd (ingest parse_example empty_database both_identifiers)) = []"
  by (simp add: inputs calls)

subsection \<open>C2: the current vehicle status after an ingestion\<close>

text \<open>
  C2: for a valid vehicle payload (every vehicle field present, the timestamp one that
  parses), \<open>ingestVehicle\<close> succeeds, and afterwards the current-status row found under
  the payload's \<open>vehicleId\<close> is made of the payload's fields and the parsed
  timestamp, whatever row was stored before: nothing compares the incoming timestamp
  with the stored one. Where the key was unique before, that row is the only one with
  the key.
\<close>

theorem ingestVehicle_overwrites_current_status:
  assumes "p_vehicleId data = Some v" and "p_soc data = Some s"
    and "p_kwhDeliveredDc data = Some k" and "p_batteryTemp data = Some b"
    and "p_timestamp data = Some ts" and "parse ts = Some t"
  shows "fst (ingestVehicle parse db data) = Inr ''vehicle telemetry ingested'' \<and>
         findOne cv_vehicleId (vehicleCurrentRepo (snd (ingestVehicle parse db data))) v =
           Some \<lparr>cv_vehicleId = v, cv_soc = s, cv_lastKwhDeliveredDc = k,
                 cv_batteryTemp = b, cv_lastUpdatedAt = t\<rparr> \<and>
         (distinct (map cv_vehicleId (vehicleCurrentRepo db)) \<longrightarrow>
            filter (\<lambda>r. cv_vehicleId r = v)
              (vehicleCurrentRepo (snd (ingestVehicle parse db data))) =
              [\<lparr>cv_vehicleId = v, cv_soc = s, cv_lastKwhDeliveredDc = k,
                cv_batteryTemp = b, cv_lastUpdatedAt = t\<rparr>])"
proof -
  let ?row = "\<lparr>cv_vehicleId = v, cv_soc = s, cv_lastKwhDeliveredDc = k,
                cv_batteryTemp = b, cv_lastUpdatedAt = t\<rparr>"
  have date: "new_Date parse (p_timestamp data) = Instant t"
    using assms(5,6) by (simp add: new_Date_def)
  have after: "vehicleCurrentRepo (snd (ingestVehicle parse db data)) =
      upsert cv_vehicleId (vehicleCurrentRepo db) ?row"
    and ok: "fst (ingestVehicle parse db data) = Inr ''vehicle telemetry ingested''"
    using ingestVehicle_valid [OF assms(1-4) date, of db] by simp_all
  have found: "findOne cv_vehicleId (upsert cv_vehicleId (vehicleCurrentRepo db) ?row) v =
      Some ?row"
    using findOne_upsert [of cv_vehicleId "vehicleCurrentRepo db" ?row] by simp
  have only: "distinct (map cv_vehicleId (vehicleCurrentRepo db)) \<Longrightarrow>
      filter (\<lambda>r. cv_vehicleId r = v) (upsert cv_vehicleId (vehicleCurrentRepo db) ?row) =
        [?row]"
    using filter_upsert [of cv_vehicleId "vehicleCurrentRepo db" ?row] by simp
  from ok found only show ?thesis by (simp add: after)
qed

text \<open>
  The witness: EV-1 has a status row from 06:00; the reading of 00:00 is ingested after
  it and replaces it.
\<close>

theorem ingestVehicle_overwrites_current_status_witness:
  "p_vehicleId vehicle_EV1 = Some ''EV-1'' \<and> p_soc vehicle_EV1 = Some 50 \<and>
   p_kwhDeliveredDc vehicle_EV1 = Some 10 \<and> p_batteryTemp vehicle_EV1 = Some 25 \<and>
   p_timestamp vehicle_EV1 = Some ''2026-01-01T00:00:00Z'' \<and>
   parse_example ''2026-01-01T00:00:00Z'' = Some 1767225600000 \<and>
   distinct (map cv_vehicleId (vehicleCurrentRepo newer_status)) \<and>
   findOne cv_vehicleId (vehicleCurrentRepo newer_status) ''EV-1'' =
     Some \<lparr>cv_vehicleId = ''EV-1'', cv_soc = 80, cv_lastKwhDeliveredDc = 30,
           cv_batteryTemp = 31, cv_lastUpdatedAt = 1767247200000\<rparr> \<and>
   fst (ingestVehicle parse_example newer_status vehicle_EV1) =
     Inr ''vehicle telemetry ingested'' \<and>
   findOne cv_vehicleId
     (vehicleCurrentRepo (snd (ingestVehicle parse_example newer_status vehicle_EV1)))
     ''EV-1'' =
     Some \<lparr>cv_vehicleId = ''EV-1'', cv_soc = 50, cv_lastKwhDeliveredDc = 10,
           cv_batteryTemp = 25, cv_lastUpdatedAt = 1767225600000\<rparr> \<and>
   filter (\<lambda>r. cv_vehicleId r = ''EV-1'')
     (vehicleCurrentRepo (snd (ingestVehicle parse_example newer_status vehicle_EV1))) =
     [\<lparr>cv_vehicleId = ''EV-1'', cv_soc = 50, cv_lastKwhDeliveredDc = 10,
       cv_batteryTemp = 25, cv_lastUpdatedAt = 1767225600000\<rparr>]"
  using ingestVehicle_overwrites_current_status
    [of vehicle_EV1 "''EV-1''" 50 10 25 "''2026-01-01T00:00:00Z''" parse_example
      1767225600000 newer_status]
  by (simp add: inputs findOne_def)

subsection \<open>C7: a payload with neither identifier\<close>

text \<open>
  C7: a payload that contains neither a vehicle identifier nor a meter identifier is
  refused with the bad-request exception "Unknown telemetry type ...", a client error
  (status 400), and the database is left exactly as it was: no relation is written.
\<close>

theorem ingest_rejects_unclassified:
  assumes "p_vehicleId payload = None" and "p_meterId payload = None"
  shows "ingest parse db payload =
           (Inl (BadRequestException
                   ''Unknown telemetry type. Must include either meterId or vehicleId''),
            db) \<and>
         client_error (BadRequestException
           ''Unknown telemetry type. Must include either meterId or vehicleId'')"
  using assms by (simp add: ingest_def client_error_def)

theorem ingest_rejects_unclassified_witness:
  "p_vehicleId no_identifier = None \<and> p_meterId no_identifier = None \<and>
   ingest parse_example scenario no_identifier =
     (Inl (BadRequestException
             ''Unknown telemetry type. Must include either meterId or vehicleId''),
      scenario)"
  using ingest_rejects_unclassified [of no_identifier parse_example scenario]
  by (simp add: no_identifier_def)

subsection \<open>C8: the histories are append-only\<close>

text \<open>
  C8: a successful ingestion appends exactly one row to the history of its kind (the
  meter history when the payload contains a meter identifier, the vehicle history
  otherwise), made of the payload's fields and the parsed timestamp, and leaves the
  other history as it was. Whatever sequence of requests the system serves, each
  history it started with is a prefix of the history it ends with: no row is updated
  and none is deleted.
\<close>

theorem history_append_only:
  "(fst (ingest parse db payload) = Inr status \<longrightarrow>
      (if p_meterId payload \<noteq> None
       then (\<exists>h. meterHistoryRepo (snd (ingest parse db payload)) =
                    meterHistoryRepo db @ [h] \<and>
                  Some (mh_meterId h) = p_meterId payload \<and>
                  Some (mh_kwhConsumedAc h) = p_kwhConsumedAc payload \<and>
                  Some (mh_voltage h) = p_voltage payload \<and>
                  Instant (mh_timestamp h) = new_Date parse (p_timestamp payload)) \<and>
            vehicleHistoryRepo (snd (ingest parse db payload)) = vehicleHistoryRepo db
       else (\<exists>h. vehicleHistoryRepo (snd (ingest parse db payload)) =
                    vehicleHistoryRepo db @ [h] \<and>
                  Some (vh_vehicleId h) = p_vehicleId payload \<and>
                  Some (vh_soc h) = p_soc payload \<and>
                  Some (vh_kwhDeliveredDc h) = p_kwhDeliveredDc payload \<and>
                  Some (vh_batteryTemp h) = p_batteryTemp payload \<and>
                  Instant (vh_timestamp h) = new_Date parse (p_timestamp payload)) \<and>
            meterHistoryRepo (snd (ingest parse db payload)) = meterHistoryRepo db)) \<and>
   prefix (vehicleHistoryRepo db) (vehicleHistoryRepo (serve parse db requests)) \<and>
   prefix (meterHistoryRepo db) (meterHistoryRepo (serve parse db requests))"
proof -
  have one: "fst (ingest parse db payload) = Inr status \<Longrightarrow>
      (if p_meterId payload \<noteq> None
       then (\<exists>h. meterHistoryRepo (snd (ingest parse db payload)) =
                    meterHistoryRepo db @ [h] \<and>
                  Some (mh_meterId h) = p_meterId payload \<and>
                  Some (mh_kwhConsumedAc h) = p_kwhConsumedAc payload \<and>
                  Some (mh_voltage h) = p_voltage payload \<and>
                  Instant (mh_timestamp h) = new_Date parse (p_timestamp payload)) \<and>
            vehicleHistoryRepo (snd (ingest parse db payload)) = vehicleHistoryRepo db
       else (\<exists>h. vehicleHistoryRepo (snd (ingest parse db payload)) =
                    vehicleHistoryRepo db @ [h] \<and>
                  Some (vh_vehicleId h) = p_vehicleId payload \<and>
                  Some (vh_soc h) = p_soc payload \<and>
                  Some (vh_kwhDeliveredDc h) = p_kwhDeliveredDc payload \<and>
                  Some (vh_batteryTemp h) = p_batteryTemp payload \<and>
                  Instant (vh_timestamp h) = new_Date parse (p_timestamp payload)) \<and>
            meterHistoryRepo (snd (ingest parse db payload)) = meterHistoryRepo db)"
  proof (cases "p_meterId payload \<noteq> None")
    case True
    assume "fst (ingest parse db payload) = Inr status"
    with True have ok: "fst (ingestMeter parse db payload) = Inr status"
      by (simp add: ingest_def)
    from ingestMeter_Inr [OF ok] obtain m k u t where
      f: "p_meterId payload = Some m" "p_kwhConsumedAc payload = Some k"
         "p_voltage payload = Some u" "new_Date parse (p_timestamp payload) = Instant t"
      by blast
    from True ingestMeter_valid [OF f, of db] f show ?thesis
      by (simp add: ingest_def)
  next
    case False
    assume "fst (ingest parse db payload) = Inr status"
    with False have ok: "fst (ingestVehicle parse db payload) = Inr status"
      by (simp add: ingest_def split: if_splits)
    from ingestVehicle_Inr [OF ok] obtain v s k b t where
      f: "p_vehicleId payload = Some v" "p_soc payload = Some s"
         "p_kwhDeliveredDc payload = Some k" "p_batteryTemp payload = Some b"
         "new_Date parse (p_timestamp payload) = Instant t"
      by blast
    from False ingestVehicle_valid [OF f, of db] f show ?thesis
      by (simp add: ingest_def)
  qed
  from one serve_histories [of db parse requests] show ?thesis by blast
qed

text \<open>
  The witness: the meter reading of the scenario, ingested a second time into the
  scenario's database, and then followed by a performance query, a vehicle reading and
  a change of mapping.
\<close>

theorem history_append_only_witness:
  "fst (ingest parse_example scenario meter_M1) = Inr ''meter telemetry ingested'' \<and>
   meterHistoryRepo (snd (ingest parse_example scenario meter_M1)) =
     meterHistoryRepo scenario @
       [\<lparr>mh_meterId = ''M-1'', mh_kwhConsumedAc = 12, mh_voltage = 230,
         mh_timestamp = 1767225600000\<rparr>] \<and>
   vehicleHistoryRepo (snd (ingest parse_example scenario meter_M1)) =
     vehicleHistoryRepo scenario \<and>
   prefix (vehicleHistoryRepo scenario)
     (vehicleHistoryRepo (serve parse_example scenario
        [(one_hour_later, PostTelemetry meter_M1), (one_hour_later, GetPerformance ''EV-1''),
         (two_days_later, PostTelemetry vehicle_EV1),
         (two_days_later, PutMappings ''EV-1'' ''M-2'')])) \<and>
   prefix (meterHistoryRepo scenario)
     (meterHistoryRepo (serve parse_example scenario
        [(one_hour_later, PostTelemetry meter_M1), (one_hour_later, GetPerformance ''EV-1''),
         (two_days_later, PostTelemetry vehicle_EV1),
         (two_days_later, PutMappings ''EV-1'' ''M-2'')]))"
  using history_append_only [of parse_example scenario meter_M1 "''meter telemetry ingested''"
      "[(one_hour_later, PostTelemetry meter_M1), (one_hour_later, GetPerformance ''EV-1''),
         (two_days_later, PostTelemetry vehicle_EV1),
         (two_days_later, PutMappings ''EV-1'' ''M-2'')]"]
  by (simp add: scenario_rows inputs calls)

subsection \<open>C9: a malformed timestamp\<close>

text \<open>
  C9, as the service has it: the handler builds the timestamp with the \<open>Date\<close>
  constructor, which does not fail, and checks nothing itself. For a classified payload
  whose timestamp is malformed (or absent) the Invalid Date goes into the history
  INSERT, the database rejects the statement, and the call fails with that query error:
  a server error, not a validation error. Nothing is written.
\<close>

theorem ingest_malformed_timestamp:
  assumes "p_meterId payload \<noteq> None \<or> p_vehicleId payload \<noteq> None"
    and "new_Date parse (p_timestamp payload) = Invalid_Date"
  shows "ingest parse db payload = (Inl QueryFailedError, db) \<and>
         \<not> client_error QueryFailedError"
  using assms ingestVehicle_Invalid [of parse payload db] ingestMeter_Invalid [of parse payload db]
  by (auto simp: ingest_def client_error_def)

theorem ingest_malformed_timestamp_witness:
  "p_meterId meter_malformed = Some ''M-1'' \<and>
   new_Date parse_example (p_timestamp meter_malformed) = Invalid_Date \<and>
   ingest parse_example scenario meter_malformed = (Inl QueryFailedError, scenario) \<and>
   \<not> client_error QueryFailedError"
proof -
  have m: "p_meterId meter_malformed = Some ''M-1''"
    by (simp add: inputs)
  have d: "new_Date parse_example (p_timestamp meter_malformed) = Invalid_Date"
    by (simp add: inputs new_Date_def)
  from m have c: "p_meterId meter_malformed \<noteq> None \<or> p_vehicleId meter_malformed \<noteq> None"
    by simp
  from m d ingest_malformed_timestamp [OF c d, of scenario] show ?thesis by blast
qed

text \<open>
  C9 as the claim states it fails: the vehicle reading \<open>vehicle_malformed\<close> has the
  timestamp "not-a-date", and the call does not end in a validation error but in the
  database's query error, which is answered with status 500.
\<close>

theorem ingest_validation_error_counterexample:
  "p_timestamp vehicle_malformed = Some ''not-a-date'' \<and>
   parse_example ''not-a-date'' = None \<and>
   fst (ingest parse_example empty_database vehicle_malformed) = Inl QueryFailedError \<and>
   http_status QueryFailedError = 500 \<and>
   \<not> client_error QueryFailedError"
  by (simp add: inputs calls client_error_def)

subsection \<open>C3: the efficiency ratio\<close>

text \<open>
  C3, as the service has it: for a mapped vehicle, with \<open>totalDc\<close> the sum of the DC
  energy of the vehicle's history rows of the last 24 hours and \<open>totalAc\<close> the sum of
  the AC energy of the mapped meter's, the efficiency ratio is \<open>totalDc / totalAc\<close>
  rounded to two decimal places when \<open>totalAc\<close> is strictly positive, and zero when
  \<open>totalAc\<close> is zero or negative. For \<open>totalDc = 86\<close> and \<open>totalAc = 100\<close> it is
  0.86.
\<close>

theorem efficiencyRatio_rounded_quotient:
  assumes "findOne vm_vehicleId (mappingRepo db) vehicleId = Some mapping"
    and "since = now - 24 * 60 * 60 * 1000"
    and "totalDc =
           sum_list (map vh_kwhDeliveredDc
             (vehicleRowsSince (vehicleHistoryRepo db) vehicleId since))"
    and "totalAc =
           sum_list (map mh_kwhConsumedAc
             (meterRowsSince (meterHistoryRepo db) (vm_meterId mapping) since))"
  shows "\<exists>p. fst (getVehiclePerformance now db vehicleId) = Inr p \<and>
           (if totalAc > 0
            then rounded_to_decimals 2 (totalDc / totalAc) (efficiencyRatio (energy p))
            else efficiencyRatio (energy p) = 0) \<and>
           (totalDc = 86 \<and> totalAc = 100 \<longrightarrow> efficiencyRatio (energy p) = 86 / 100)"
proof -
  have dc: "dc_delivered (vehicleHistoryRepo db) vehicleId (now - 24 * 60 * 60 * 1000) = totalDc"
    using assms(2,3) by (simp only: dc_delivered_sum)
  have ac: "ac_consumed (meterHistoryRepo db) (vm_meterId mapping) (now - 24 * 60 * 60 * 1000) =
      totalAc"
    using assms(2,4) by (simp only: ac_consumed_sum)
  have example: "toFixed (86 / 100) 2 = 86 / 100"
    by (simp add: toFixed_def toFixed_digits_def)
  show ?thesis
    unfolding getVehiclePerformance_mapped [OF assms(1)] dc ac
    using toFixed_rounded [of 2 "totalDc / totalAc"] example
    by auto
qed

theorem efficiencyRatio_rounded_quotient_witness:
  "findOne vm_vehicleId (mappingRepo scenario_86_100) ''EV-1'' =
     Some \<lparr>vm_vehicleId = ''EV-1'', vm_meterId = ''M-1''\<rparr> \<and>
   sum_list (map vh_kwhDeliveredDc
     (vehicleRowsSince (vehicleHistoryRepo scenario_86_100) ''EV-1''
        (one_hour_later - 24 * 60 * 60 * 1000))) = 86 \<and>
   sum_list (map mh_kwhConsumedAc
     (meterRowsSince (meterHistoryRepo scenario_86_100) ''M-1''
        (one_hour_later - 24 * 60 * 60 * 1000))) = 100 \<and>
   (\<exists>p. fst (getVehiclePerformance one_hour_later scenario_86_100 ''EV-1'') = Inr p \<and>
        rounded_to_decimals 2 (86 / 100) (efficiencyRatio (energy p)) \<and>
        efficiencyRatio (energy p) = 86 / 100)"
proof -
  let ?since = "one_hour_later - 24 * 60 * 60 * 1000"
  have m: "findOne vm_vehicleId (mappingRepo scenario_86_100) ''EV-1'' =
      Some \<lparr>vm_vehicleId = ''EV-1'', vm_meterId = ''M-1''\<rparr>"
    by (simp add: scenario_86_100_rows findOne_def)
  have dc: "(86::real) = sum_list (map vh_kwhDeliveredDc
      (vehicleRowsSince (vehicleHistoryRepo scenario_86_100) ''EV-1'' ?since))"
    by (simp add: scenario_86_100_rows vehicleRowsSince_def one_hour_later_def)
  have ac: "(100::real) = sum_list (map mh_kwhConsumedAc
      (meterRowsSince (meterHistoryRepo scenario_86_100)
         (vm_meterId \<lparr>vm_vehicleId = ''EV-1'', vm_meterId = ''M-1''\<rparr>) ?since))"
    by (simp add: scenario_86_100_rows meterRowsSince_def one_hour_later_def)
  from efficiencyRatio_rounded_quotient [OF m refl dc ac]
  have "\<exists>p. fst (getVehiclePerformance one_hour_later scenario_86_100 ''EV-1'') = Inr p \<and>
        rounded_to_decimals 2 (86 / 100) (efficiencyRatio (energy p)) \<and>
        efficiencyRatio (energy p) = 86 / 100"
    by simp
  with m dc ac show ?thesis by simp
qed

text \<open>
  C3 as the claim states it fails where the AC sum is negative: in
  \<open>scenario_negative_ac\<close> the sums are 86 and -100, the AC sum is not zero, and the
  ratio reported is 0, which is not 86 / -100 rounded to two decimal places.
\<close>

theorem efficiencyRatio_negative_ac_counterexample:
  "sum_list (map vh_kwhDeliveredDc
     (vehicleRowsSince (vehicleHistoryRepo scenario_negative_ac) ''EV-1''
        (one_hour_later - 24 * 60 * 60 * 1000))) = 86 \<and>
   sum_list (map mh_kwhConsumedAc
     (meterRowsSince (meterHistoryRepo scenario_negative_ac) ''M-1''
        (one_hour_later - 24 * 60 * 60 * 1000))) = - 100 \<and>
   fst (getVehiclePerformance one_hour_later scenario_negative_ac ''EV-1'') =
     Inr \<lparr>pf_vehicleId = ''EV-1'', period = ''last_24_hours'',
          energy = \<lparr>acConsumed = - 100, dcDelivered = 86, efficiencyRatio = 0\<rparr>,
          battery = \<lparr>avgTemperature = 25\<rparr>\<rparr> \<and>
   \<not> rounded_to_decimals 2 (86 / (- 100)) 0"
  by (simp add: scenario_negative_ac_rows getVehiclePerformance_def aggregates
      rounded_to_decimals_def)

subsection \<open>C4: no history row in the last 24 hours\<close>

text \<open>
  C4: for a mapped vehicle none of whose history rows, and none of whose mapped meter's
  history rows, has a timestamp within the last 24 hours, \<open>getVehiclePerformance\<close>
  returns the response with \<open>acConsumed\<close>, \<open>dcDelivered\<close>, \<open>efficiencyRatio\<close> and
  \<open>avgTemperature\<close> all zero.
\<close>

theorem getVehiclePerformance_no_recent_rows:
  assumes "findOne vm_vehicleId (mappingRepo db) vehicleId = Some mapping"
    and "\<forall>v \<in> set (vehicleHistoryRepo db).
           vh_vehicleId v = vehicleId \<longrightarrow> vh_timestamp v < now - 24 * 60 * 60 * 1000"
    and "\<forall>m \<in> set (meterHistoryRepo db).
           mh_meterId m = vm_meterId mapping \<longrightarrow> mh_timestamp m < now - 24 * 60 * 60 * 1000"
  shows "fst (getVehiclePerformance now db vehicleId) =
     Inr \<lparr>pf_vehicleId = vehicleId, period = ''last_24_hours'',
          energy = \<lparr>acConsumed = 0, dcDelivered = 0, efficiencyRatio = 0\<rparr>,
          battery = \<lparr>avgTemperature = 0\<rparr>\<rparr>"
proof -
  have v: "vehicleRowsSince (vehicleHistoryRepo db) vehicleId (now - 24 * 60 * 60 * 1000) = []"
    using assms(2) by (auto simp: vehicleRowsSince_def filter_empty_conv)
  have m: "meterRowsSince (meterHistoryRepo db) (vm_meterId mapping)
      (now - 24 * 60 * 60 * 1000) = []"
    using assms(3) by (auto simp: meterRowsSince_def filter_empty_conv)
  have dc: "dc_delivered (vehicleHistoryRepo db) vehicleId (now - 24 * 60 * 60 * 1000) = 0"
    by (simp only: dc_delivered_sum v) simp
  have ac: "ac_consumed (meterHistoryRepo db) (vm_meterId mapping)
      (now - 24 * 60 * 60 * 1000) = 0"
    by (simp only: ac_consumed_sum m) simp
  have temp: "avg_temp (vehicleHistoryRepo db) vehicleId (now - 24 * 60 * 60 * 1000) = 0"
    using v by (rule avg_temp_no_rows)
  show ?thesis
    unfolding getVehiclePerformance_mapped [OF assms(1)] dc ac temp
    by (simp add: toFixed_zero)
qed

text \<open>The witness: the scenario's database, asked two days after its readings.\<close>

theorem getVehiclePerformance_no_recent_rows_witness:
  "findOne vm_vehicleId (mappingRepo scenario) ''EV-1'' =
     Some \<lparr>vm_vehicleId = ''EV-1'', vm_meterId = ''M-1''\<rparr> \<and>
   vehicleHistoryRepo scenario \<noteq> [] \<and> meterHistoryRepo scenario \<noteq> [] \<and>
   fst (getVehiclePerformance two_days_later scenario ''EV-1'') =
     Inr \<lparr>pf_vehicleId = ''EV-1'', period = ''last_24_hours'',
          energy = \<lparr>acConsumed = 0, dcDelivered = 0, efficiencyRatio = 0\<rparr>,
          battery = \<lparr>avgTemperature = 0\<rparr>\<rparr>"
proof -
  have m: "findOne vm_vehicleId (mappingRepo scenario) ''EV-1'' =
      Some \<lparr>vm_vehicleId = ''EV-1'', vm_meterId = ''M-1''\<rparr>"
    by (simp add: scenario_rows findOne_def)
  have v: "\<forall>v \<in> set (vehicleHistoryRepo scenario).
      vh_vehicleId v = ''EV-1'' \<longrightarrow> vh_timestamp v < two_days_later - 24 * 60 * 60 * 1000"
    by (simp add: scenario_rows two_days_later_def)
  have a: "\<forall>m \<in> set (meterHistoryRepo scenario).
      mh_meterId m = vm_meterId \<lparr>vm_vehicleId = ''EV-1'', vm_meterId = ''M-1''\<rparr> \<longrightarrow>
        mh_timestamp m < two_days_later - 24 * 60 * 60 * 1000"
    by (simp add: scenario_rows two_days_later_def)
  have n: "vehicleHistoryRepo scenario \<noteq> [] \<and> meterHistoryRepo scenario \<noteq> []"
    by (simp add: scenario_rows)
  from m n getVehiclePerformance_no_recent_rows [OF m v a] show ?thesis by blast
qed

subsection \<open>C5: the mapping upsert\<close>

text \<open>
  C5: after \<open>createMapping v m\<close>, \<open>getMapping v\<close> returns the row with \<open>v\<close> and
  \<open>m\<close>; after a further \<open>createMapping v m2\<close> it returns the row with \<open>v\<close> and
  \<open>m2\<close>. Where the mapping relation had at most one row per vehicle identifier
  before, it has at most one per vehicle identifier after, and exactly one for \<open>v\<close>.
\<close>

theorem createMapping_then_getMapping:
  "getMapping (snd (createMapping db v m)) v = Inr \<lparr>vm_vehicleId = v, vm_meterId = m\<rparr> \<and>
   getMapping (snd (createMapping (snd (createMapping db v m)) v m2)) v =
     Inr \<lparr>vm_vehicleId = v, vm_meterId = m2\<rparr> \<and>
   (distinct (map vm_vehicleId (mappingRepo db)) \<longrightarrow>
      distinct (map vm_vehicleId (mappingRepo (snd (createMapping db v m)))) \<and>
      filter (\<lambda>r. vm_vehicleId r = v) (mappingRepo (snd (createMapping db v m))) =
        [\<lparr>vm_vehicleId = v, vm_meterId = m\<rparr>] \<and>
      filter (\<lambda>r. vm_vehicleId r = v)
        (mappingRepo (snd (createMapping (snd (createMapping db v m)) v m2))) =
        [\<lparr>vm_vehicleId = v, vm_meterId = m2\<rparr>])"
proof -
  have get: "getMapping (snd (createMapping d v x)) v = Inr \<lparr>vm_vehicleId = v, vm_meterId = x\<rparr>"
    for d x
    using findOne_upsert [of vm_vehicleId "mappingRepo d" "\<lparr>vm_vehicleId = v, vm_meterId = x\<rparr>"]
    by (simp add: getMapping_def createMapping_def)
  have keys: "distinct (map vm_vehicleId (mappingRepo d)) \<Longrightarrow>
      distinct (map vm_vehicleId (mappingRepo (snd (createMapping d v x))))" for d x
    by (simp add: createMapping_def distinct_upsert)
  have one: "distinct (map vm_vehicleId (mappingRepo d)) \<Longrightarrow>
      filter (\<lambda>r. vm_vehicleId r = v) (mappingRepo (snd (createMapping d v x))) =
        [\<lparr>vm_vehicleId = v, vm_meterId = x\<rparr>]" for d x
    using filter_upsert [of vm_vehicleId "mappingRepo d" "\<lparr>vm_vehicleId = v, vm_meterId = x\<rparr>"]
    by (simp add: createMapping_def)
  from get [of db m] get [of "snd (createMapping db v m)" m2]
    keys [of db m] one [of db m] one [of "snd (createMapping db v m)" m2]
  show ?thesis by blast
qed

text \<open>The witness: EV-1, mapped to M-1 in the scenario, is mapped to M-2 and then to M-3.\<close>

theorem createMapping_then_getMapping_witness:
  "distinct (map vm_vehicleId (mappingRepo scenario)) \<and>
   getMapping scenario ''EV-1'' = Inr \<lparr>vm_vehicleId = ''EV-1'', vm_meterId = ''M-1''\<rparr> \<and>
   getMapping (snd (createMapping scenario ''EV-1'' ''M-2'')) ''EV-1'' =
     Inr \<lparr>vm_vehicleId = ''EV-1'', vm_meterId = ''M-2''\<rparr> \<and>
   getMapping (snd (createMapping (snd (createMapping scenario ''EV-1'' ''M-2''))
      ''EV-1'' ''M-3'')) ''EV-1'' =
     Inr \<lparr>vm_vehicleId = ''EV-1'', vm_meterId = ''M-3''\<rparr> \<and>
   filter (\<lambda>r. vm_vehicleId r = ''EV-1'')
     (mappingRepo (snd (createMapping (snd (createMapping scenario ''EV-1'' ''M-2''))
        ''EV-1'' ''M-3''))) =
     [\<lparr>vm_vehicleId = ''EV-1'', vm_meterId = ''M-3''\<rparr>]"
proof -
  have d: "distinct (map vm_vehicleId (mappingRepo scenario))"
    by (simp add: scenario_rows)
  have g: "getMapping scenario ''EV-1'' = Inr \<lparr>vm_vehicleId = ''EV-1'', vm_meterId = ''M-1''\<rparr>"
    by (simp add: scenario_rows getMapping_def findOne_def)
  from d g createMapping_then_getMapping [of scenario "''EV-1''" "''M-2''" "''M-3''"]
  show ?thesis by blast
qed

subsection \<open>C6: a vehicle without a mapping\<close>

text \<open>
  C6: for a vehicle identifier that no mapping row has, \<open>getVehiclePerformance\<close> fails
  with the not-found exception whose message names the vehicle, and the only statement
  it has sent is the mapping lookup: neither history aggregate is queried.
\<close>

theorem getVehiclePerformance_unmapped:
  assumes "vehicleId \<notin> vm_vehicleId ` set (mappingRepo db)"
  shows "getVehiclePerformance now db vehicleId =
     (Inl (NotFoundException (''No meter mapped to vehicle '' @ vehicleId)),
      [MappingFindOne vehicleId])"
  using findOne_None [OF assms] by (simp add: getVehiclePerformance_def)

theorem getVehiclePerformance_unmapped_witness:
  "''EV-2'' \<notin> vm_vehicleId ` set (mappingRepo scenario) \<and>
   getVehiclePerformance one_hour_later scenario ''EV-2'' =
     (Inl (NotFoundException ''No meter mapped to vehicle EV-2''), [MappingFindOne ''EV-2''])"
proof -
  have n: "''EV-2'' \<notin> vm_vehicleId ` set (mappingRepo scenario)"
    by (simp add: scenario_rows)
  from n getVehiclePerformance_unmapped [OF n, of one_hour_later] show ?thesis by simp
qed

subsection \<open>C10: the guard of the division\<close>

text \<open>
  C10: for a mapped vehicle, the efficiency ratio is \<open>toFixed (totalDc / totalAc) 2\<close>
  exactly when the AC sum of the last 24 hours is strictly positive; for every AC sum
  that is zero or negative it is 0, whatever the DC sum.
\<close>

theorem efficiencyRatio_guard_strictly_positive:
  assumes "findOne vm_vehicleId (mappingRepo db) vehicleId = Some mapping"
    and "since = now - 24 * 60 * 60 * 1000"
    and "totalDc =
           sum_list (map vh_kwhDeliveredDc
             (vehicleRowsSince (vehicleHistoryRepo db) vehicleId since))"
    and "totalAc =
           sum_list (map mh_kwhConsumedAc
             (meterRowsSince (meterHistoryRepo db) (vm_meterId mapping) since))"
  shows "\<exists>p. fst (getVehiclePerformance now db vehicleId) = Inr p \<and>
           (totalAc \<le> 0 \<longrightarrow> efficiencyRatio (energy p) = 0) \<and>
           (0 < totalAc \<longrightarrow> efficiencyRatio (energy p) = toFixed (totalDc / totalAc) 2)"
proof -
  have dc: "dc_delivered (vehicleHistoryRepo db) vehicleId (now - 24 * 60 * 60 * 1000) = totalDc"
    using assms(2,3) by (simp only: dc_delivered_sum)
  have ac: "ac_consumed (meterHistoryRepo db) (vm_meterId mapping) (now - 24 * 60 * 60 * 1000) =
      totalAc"
    using assms(2,4) by (simp only: ac_consumed_sum)
  show ?thesis
    unfolding getVehiclePerformance_mapped [OF assms(1)] dc ac by auto
qed

text \<open>
  The witness: in \<open>scenario_negative_ac\<close> the AC sum is -100 and the DC sum 86; the
  ratio reported is 0, where the division would have given -0.86.
\<close>

theorem efficiencyRatio_guard_strictly_positive_witness:
  "findOne vm_vehicleId (mappingRepo scenario_negative_ac) ''EV-1'' =
     Some \<lparr>vm_vehicleId = ''EV-1'', vm_meterId = ''M-1''\<rparr> \<and>
   sum_list (map mh_kwhConsumedAc
     (meterRowsSince (meterHistoryRepo scenario_negative_ac) ''M-1''
        (one_hour_later - 24 * 60 * 60 * 1000))) = - 100 \<and>
   (\<exists>p. fst (getVehiclePerformance one_hour_later scenario_negative_ac ''EV-1'') = Inr p \<and>
        efficiencyRatio (energy p) = 0) \<and>
   toFixed (86 / (- 100)) 2 = - (86 / 100)"
proof -
  let ?since = "one_hour_later - 24 * 60 * 60 * 1000"
  have m: "findOne vm_vehicleId (mappingRepo scenario_negative_ac) ''EV-1'' =
      Some \<lparr>vm_vehicleId = ''EV-1'', vm_meterId = ''M-1''\<rparr>"
    by (simp add: scenario_negative_ac_rows findOne_def)
  have ac: "(- 100::real) = sum_list (map mh_kwhConsumedAc
      (meterRowsSince (meterHistoryRepo scenario_negative_ac)
         (vm_meterId \<lparr>vm_vehicleId = ''EV-1'', vm_meterId = ''M-1''\<rparr>) ?since))"
    by (simp add: scenario_negative_ac_rows meterRowsSince_def one_hour_later_def)
  from efficiencyRatio_guard_strictly_positive [OF m refl refl ac]
  have "\<exists>p. fst (getVehiclePerformance one_hour_later scenario_negative_ac ''EV-1'') = Inr p \<and>
        efficiencyRatio (energy p) = 0"
    by simp
  moreover have "toFixed (86 / (- 100)) 2 = - (86 / 100)"
    by (simp add: toFixed_def toFixed_digits_def)
  ultimately show ?thesis using m ac by simp
qed

end
